theory Spec2Isabelle
  imports Main
begin

section \<open>JavaScript values and the browser platform\<close>

text \<open>
  The values the code handles are the ones \<^verbatim>\<open>JSON.parse\<close> produces, plus
  \<^verbatim>\<open>undefined\<close>, \<^verbatim>\<open>NaN\<close> and the big integers. A number other than
  \<^verbatim>\<open>NaN\<close> is modelled by an integer: the only operation the code applies to a number
  is the truthiness test, where zero and \<^verbatim>\<open>NaN\<close> are falsy. An object is the list of
  its own properties.
\<close>

datatype jsval =
    JUndefined
  | JNull
  | JBool bool
  | JNum int
  | JNaN
  | JBigInt int
  | JStr string
  | JArr "jsval list"
  | JObj "(string \<times> jsval) list"

text \<open>What \<^verbatim>\<open>if (v)\<close>, \<^verbatim>\<open>v ? a : b\<close>, \<^verbatim>\<open>!v\<close> and \<^verbatim>\<open>v && w\<close> test.\<close>

fun truthy :: "jsval \<Rightarrow> bool" where
  "truthy JUndefined = False"
| "truthy JNull = False"
| "truthy (JBool b) = b"
| "truthy (JNum n) = (n \<noteq> 0)"
| "truthy JNaN = False"
| "truthy (JBigInt n) = (n \<noteq> 0)"
| "truthy (JStr s) = (s \<noteq> [])"
| "truthy (JArr xs) = True"
| "truthy (JObj kvs) = True"

text \<open>
  What a call can throw. \<open>Err msg st d\<close> is the object built by
  \<^verbatim>\<open>new Error(msg)\<close> in \<^verbatim>\<open>requestJson\<close> after \<^verbatim>\<open>err.status = st\<close> and
  \<^verbatim>\<open>err.data = d\<close>; the other constructors are the exceptions of the platform.
\<close>

datatype js_error =
    TypeError
  | SyntaxError
  | SecurityError
  | URIError
  | Err (err_message: string) (err_status: nat) (err_data: jsval)

text \<open>
  Reading a property named \<open>k\<close> with \<^verbatim>\<open>v.k\<close>. On \<^verbatim>\<open>undefined\<close> and \<^verbatim>\<open>null\<close> the
  read throws; on an object it gives the property, or \<^verbatim>\<open>undefined\<close> when the object has
  none of that name; on the other values it gives \<^verbatim>\<open>undefined\<close>. The code reads only
  \<^verbatim>\<open>error\<close> and \<^verbatim>\<open>role\<close>, names that no built-in prototype defines.
\<close>

fun get_prop :: "jsval \<Rightarrow> string \<Rightarrow> js_error + jsval" where
  "get_prop JUndefined k = Inl TypeError"
| "get_prop JNull k = Inl TypeError"
| "get_prop (JObj kvs) k = Inr (case map_of kvs k of None \<Rightarrow> JUndefined | Some v \<Rightarrow> v)"
| "get_prop v k = Inr JUndefined"

text \<open>\<^verbatim>\<open>a && b\<close>: the value of \<open>a\<close> when it is falsy, without evaluating \<open>b\<close>.\<close>

definition js_and :: "jsval \<Rightarrow> (js_error + jsval) \<Rightarrow> js_error + jsval" where
  "js_and a b = (if truthy a then b else Inr a)"

text \<open>A \<^verbatim>\<open>try { ... } catch { ... }\<close> whose handler ignores the exception.\<close>

definition try_catch :: "(js_error + 'a) \<Rightarrow> (js_error + 'a) \<Rightarrow> js_error + 'a" where
  "try_catch block handler = (case block of Inl e \<Rightarrow> handler | Inr v \<Rightarrow> Inr v)"

text \<open>The argument of \<^verbatim>\<open>fetch\<close> and the response it resolves to.\<close>

record request =
  req_path :: string
  req_method :: string
  req_headers :: "(string \<times> string) list"
  req_body :: "string option"

record response =
  status :: nat
  body_text :: string

text \<open>
  The functions of the browser that the code calls, taken as parameters. Each of them can
  throw (\<open>Inl\<close>).
  \<^item> \<open>JSON_parse\<close> throws on a text that is not JSON.
  \<^item> \<open>JSON_stringify\<close> returns \<^verbatim>\<open>undefined\<close> (\<open>None\<close>) or a text, and throws on
    a value it cannot serialize, such as a big integer or a cyclic object.
  \<^item> \<open>ToString\<close> is the conversion of a value that is not a string to a string, as in a
    template literal, \<^verbatim>\<open>String(v)\<close> and \<^verbatim>\<open>new Error(v)\<close>; it throws on an object
    that has no usable \<^verbatim>\<open>toString\<close>, such as \<^verbatim>\<open>{toString: 1}\<close>.
  \<^item> \<open>encodeURIComponent\<close> gives the URI-encoded text of a value; it throws where the
    conversion of the value to a string throws, and on a lone surrogate.
  \<^item> \<open>fetch\<close> gives, for a request, the response whose body \<^verbatim>\<open>res.text()\<close> has read,
    or the exception with which \<^verbatim>\<open>fetch\<close> or \<^verbatim>\<open>res.text()\<close> rejects.
\<close>

record platform =
  JSON_parse :: "string \<Rightarrow> js_error + jsval"
  JSON_stringify :: "jsval \<Rightarrow> js_error + string option"
  ToString :: "jsval \<Rightarrow> js_error + string"
  encodeURIComponent :: "jsval \<Rightarrow> js_error + string"
  fetch :: "request \<Rightarrow> js_error + response"

text \<open>\<^verbatim>\<open>String(v)\<close>: a string is returned as it is.\<close>

definition js_String :: "platform \<Rightarrow> jsval \<Rightarrow> js_error + string" where
  "js_String P v = (case v of JStr s \<Rightarrow> Inr s | _ \<Rightarrow> ToString P v)"

text \<open>\<^verbatim>\<open>res.ok\<close>: by the Fetch standard, the status is in the range 200 to 299.\<close>

definition ok :: "response \<Rightarrow> bool" where
  "ok res = (200 \<le> status res \<and> status res \<le> 299)"

text \<open>The decimal digits of a status code, as a template literal prints it.\<close>

definition digit :: "nat \<Rightarrow> char" where
  "digit d = ''0123456789'' ! d"

fun show_nat :: "nat \<Rightarrow> string" where
  "show_nat n =
     (if n < 10 then [digit n]
      else show_nat (n div 10) @ [digit (n mod 10)])"

declare show_nat.simps [simp del]

section \<open>The request gateway\<close>

text \<open>
  The second argument of \<^verbatim>\<open>requestJson\<close>, destructured as
  \<^verbatim>\<open>{ method = 'GET', body } = {}\<close>: \<open>opt_method\<close> is \<open>None\<close> and \<open>opt_body\<close> is
  \<^verbatim>\<open>undefined\<close> where the caller gives none.
\<close>

record options =
  opt_method :: "string option"
  opt_body :: jsval

definition no_options :: options where
  "no_options = \<lparr>opt_method = None, opt_body = JUndefined\<rparr>"

text \<open>Lines 8 to 14: the response text decoded.\<close>

definition decode :: "platform \<Rightarrow> string \<Rightarrow> js_error + jsval" where
  "decode P text =
     try_catch (if text \<noteq> [] then JSON_parse P text else Inr (JObj []))
               (Inr (JObj [(''raw'', JStr text)]))"

text \<open>Line 17: the message of the error.\<close>

definition error_msg :: "platform \<Rightarrow> jsval \<Rightarrow> response \<Rightarrow> js_error + jsval" where
  "error_msg P data res =
     (case js_and data (get_prop data ''error'') of
        Inl e \<Rightarrow> Inl e
      | Inr c \<Rightarrow>
          if truthy c then get_prop data ''error''
          else Inr (JStr (''HTTP '' @ show_nat (status res))))"

text \<open>Line 5: the body of the request. \<^verbatim>\<open>JSON.stringify\<close> is called on a truthy body only.\<close>

definition request_body :: "platform \<Rightarrow> jsval \<Rightarrow> js_error + string option" where
  "request_body P b = (if truthy b then JSON_stringify P b else Inr None)"

text \<open>
  Lines 2 to 6: the request that \<^verbatim>\<open>requestJson\<close> builds for \<^verbatim>\<open>fetch\<close>. An
  exception of \<^verbatim>\<open>JSON.stringify\<close> leaves no request.
\<close>

definition the_request :: "platform \<Rightarrow> string \<Rightarrow> options \<Rightarrow> js_error + request" where
  "the_request P path opts =
     (case request_body P (opt_body opts) of
        Inl e \<Rightarrow> Inl e
      | Inr b \<Rightarrow>
          Inr \<lparr>req_path = path,
               req_method = (case opt_method opts of None \<Rightarrow> ''GET'' | Some m \<Rightarrow> m),
               req_headers = [(''Content-Type'', ''application/json'')],
               req_body = b\<rparr>)"

text \<open>
  \<^verbatim>\<open>requestJson\<close> returns the requests it has passed to \<^verbatim>\<open>fetch\<close>, in order, and
  its outcome: the value the promise resolves to, or the exception it rejects with. On
  line 18, \<^verbatim>\<open>new Error(msg)\<close> converts \<open>msg\<close> to a string, which can throw.
\<close>

definition requestJson :: "platform \<Rightarrow> string \<Rightarrow> options \<Rightarrow> request list \<times> (js_error + jsval)" where
  "requestJson P path opts =
     (case the_request P path opts of
        Inl e \<Rightarrow> ([], Inl e)
      | Inr req \<Rightarrow>
          ([req],
           case fetch P req of
             Inl e \<Rightarrow> Inl e
           | Inr res \<Rightarrow>
               (case decode P (body_text res) of
                  Inl e \<Rightarrow> Inl e
                | Inr data \<Rightarrow>
                    if \<not> ok res then
                      (case error_msg P data res of
                         Inl e \<Rightarrow> Inl e
                       | Inr msg \<Rightarrow>
                           (case js_String P msg of
                              Inl e \<Rightarrow> Inl e
                            | Inr m \<Rightarrow> Inl (Err m (status res) data)))
                    else Inr data)))"

text \<open>
  An operation of \<^verbatim>\<open>api\<close> whose path holds an argument builds the path before it calls
  \<^verbatim>\<open>requestJson\<close>: an exception of the conversion leaves no call.
\<close>

definition with_text ::
  "js_error + string \<Rightarrow> (string \<Rightarrow> request list \<times> (js_error + jsval)) \<Rightarrow>
   request list \<times> (js_error + jsval)" where
  "with_text t call = (case t of Inl e \<Rightarrow> ([], Inl e) | Inr s \<Rightarrow> call s)"

text \<open>
  The \<^verbatim>\<open>api\<close> object. A value of \<open>api_op\<close> is one call of one of its operations with
  its arguments: \<open>GetChallenge id\<close> is \<^verbatim>\<open>api.getChallenge(id)\<close>, and so on.
\<close>

datatype api_op =
    Register jsval
  | Login jsval
  | GetChallenges
  | GetChallenge jsval
  | AddChallenge jsval
  | UpdateChallenge jsval jsval
  | DeleteChallenge jsval jsval
  | Submit jsval
  | GetSubmissions jsval
  | TeacherListSubmissions jsval
  | TeacherUpdateSubmission jsval jsval
  | AddTestCase jsval jsval
  | DeleteTestCase jsval jsval
  | AddSolutionTemplate jsval jsval
  | DeleteSolutionTemplate jsval jsval
  | ExportChallenge jsval
  | CopyChallenge jsval jsval
  | ImportChallenge jsval

fun api :: "platform \<Rightarrow> api_op \<Rightarrow> request list \<times> (js_error + jsval)" where
  "api P (Register payload) =
     requestJson P ''/register'' \<lparr>opt_method = Some ''POST'', opt_body = payload\<rparr>"
| "api P (Login payload) =
     requestJson P ''/login'' \<lparr>opt_method = Some ''POST'', opt_body = payload\<rparr>"
| "api P GetChallenges =
     requestJson P ''/challenges'' no_options"
| "api P (GetChallenge id') =
     with_text (js_String P id')
       (\<lambda>s. requestJson P (''/challenges/'' @ s) no_options)"
| "api P (AddChallenge payload) =
     requestJson P ''/add_challenge'' \<lparr>opt_method = Some ''POST'', opt_body = payload\<rparr>"
| "api P (UpdateChallenge id' payload) =
     with_text (js_String P id')
       (\<lambda>s. requestJson P (''/challenges/'' @ s)
              \<lparr>opt_method = Some ''PUT'', opt_body = payload\<rparr>)"
| "api P (DeleteChallenge id' payload) =
     with_text (js_String P id')
       (\<lambda>s. requestJson P (''/challenges/'' @ s)
              \<lparr>opt_method = Some ''DELETE'', opt_body = payload\<rparr>)"
| "api P (Submit payload) =
     requestJson P ''/submit'' \<lparr>opt_method = Some ''POST'', opt_body = payload\<rparr>"
| "api P (GetSubmissions username) =
     with_text (encodeURIComponent P username)
       (\<lambda>s. requestJson P (''/submissions/'' @ s) no_options)"
| "api P (TeacherListSubmissions payload) =
     requestJson P ''/teacher/submissions'' \<lparr>opt_method = Some ''POST'', opt_body = payload\<rparr>"
| "api P (TeacherUpdateSubmission submissionId payload) =
     with_text (encodeURIComponent P submissionId)
       (\<lambda>s. requestJson P (''/teacher/submissions/'' @ s)
              \<lparr>opt_method = Some ''PUT'', opt_body = payload\<rparr>)"
| "api P (AddTestCase challengeId payload) =
     with_text (js_String P challengeId)
       (\<lambda>s. requestJson P (''/challenges/'' @ s @ ''/add_test_case'')
              \<lparr>opt_method = Some ''POST'', opt_body = payload\<rparr>)"
| "api P (DeleteTestCase testCaseId payload) =
     with_text (js_String P testCaseId)
       (\<lambda>s. requestJson P (''/test_cases/'' @ s)
              \<lparr>opt_method = Some ''DELETE'', opt_body = payload\<rparr>)"
| "api P (AddSolutionTemplate challengeId payload) =
     with_text (js_String P challengeId)
       (\<lambda>s. requestJson P (''/challenges/'' @ s @ ''/add_solution_template'')
              \<lparr>opt_method = Some ''POST'', opt_body = payload\<rparr>)"
| "api P (DeleteSolutionTemplate templateId payload) =
     with_text (js_String P templateId)
       (\<lambda>s. requestJson P (''/solution_templates/'' @ s)
              \<lparr>opt_method = Some ''DELETE'', opt_body = payload\<rparr>)"
| "api P (ExportChallenge challengeId) =
     with_text (js_String P challengeId)
       (\<lambda>s. requestJson P (''/challenges/'' @ s @ ''/export'') no_options)"
| "api P (CopyChallenge challengeId payload) =
     with_text (js_String P challengeId)
       (\<lambda>s. requestJson P (''/challenges/'' @ s @ ''/copy'')
              \<lparr>opt_method = Some ''POST'', opt_body = payload\<rparr>)"
| "api P (ImportChallenge payload) =
     requestJson P ''/import_challenge'' \<lparr>opt_method = Some ''POST'', opt_body = payload\<rparr>"

section \<open>HTML escaping\<close>

text \<open>
  \<^verbatim>\<open>s.replaceAll(c, r)\<close> for a pattern \<open>c\<close> of one character and a replacement \<open>r\<close>
  without \<^verbatim>\<open>$\<close>: every \<open>c\<close> of \<open>s\<close> becomes \<open>r\<close>.
\<close>

definition replaceAll :: "string \<Rightarrow> char \<Rightarrow> string \<Rightarrow> string" where
  "replaceAll s c r = concat (map (\<lambda>x. if x = c then r else [x]) s)"

definition escapeHtml :: "platform \<Rightarrow> jsval \<Rightarrow> js_error + string" where
  "escapeHtml P str =
     (case js_String P str of
        Inl e \<Rightarrow> Inl e
      | Inr s \<Rightarrow>
          Inr (replaceAll
                (replaceAll
                  (replaceAll
                    (replaceAll
                      (replaceAll s (CHR ''&'') ''&amp;'')
                      (CHR ''<'') ''&lt;'')
                    (CHR ''>'') ''&gt;'')
                  (CHR 0x22) ''&quot;'')
                (CHR 0x27) ''&#039;''))"

section \<open>The authentication record in local storage\<close>

text \<open>
  \<^verbatim>\<open>localStorage\<close>: a browser that denies access to it throws on every use; otherwise it
  holds a text under each of finitely many keys.
\<close>

datatype localStorage = Denied | Store "string \<Rightarrow> string option"

fun getItem :: "localStorage \<Rightarrow> string \<Rightarrow> js_error + string option" where
  "getItem Denied k = Inl SecurityError"
| "getItem (Store m) k = Inr (m k)"

fun setItem :: "localStorage \<Rightarrow> string \<Rightarrow> string \<Rightarrow> js_error + localStorage" where
  "setItem Denied k v = Inl SecurityError"
| "setItem (Store m) k v = Inr (Store (m(k \<mapsto> v)))"

fun removeItem :: "localStorage \<Rightarrow> string \<Rightarrow> js_error + localStorage" where
  "removeItem Denied k = Inl SecurityError"
| "removeItem (Store m) k = Inr (Store (m(k := None)))"

definition AUTH_KEY :: string where
  "AUTH_KEY = ''smart_platform_auth''"

definition getAuth :: "platform \<Rightarrow> localStorage \<Rightarrow> js_error + jsval" where
  "getAuth P ls =
     try_catch
       (case getItem ls AUTH_KEY of
          Inl e \<Rightarrow> Inl e
        | Inr raw \<Rightarrow>
            (case raw of
               None \<Rightarrow> Inr JNull
             | Some s \<Rightarrow> if s \<noteq> [] then JSON_parse P s else Inr JNull))
       (Inr JNull)"

text \<open>
  \<^verbatim>\<open>setAuth\<close> reaches \<^verbatim>\<open>localStorage\<close> first, then evaluates
  \<^verbatim>\<open>JSON.stringify(auth)\<close>, then calls \<^verbatim>\<open>setItem\<close>, which stores the text of its
  argument: the text \<^verbatim>\<open>undefined\<close> where \<^verbatim>\<open>JSON.stringify\<close> has returned
  \<^verbatim>\<open>undefined\<close>.
\<close>

definition setAuth :: "platform \<Rightarrow> localStorage \<Rightarrow> jsval \<Rightarrow> js_error + localStorage" where
  "setAuth P ls auth =
     (case ls of
        Denied \<Rightarrow> Inl SecurityError
      | Store m \<Rightarrow>
          (case JSON_stringify P auth of
             Inl e \<Rightarrow> Inl e
           | Inr t \<Rightarrow> setItem ls AUTH_KEY (case t of None \<Rightarrow> ''undefined'' | Some s \<Rightarrow> s)))"

definition clearAuth :: "localStorage \<Rightarrow> js_error + localStorage" where
  "clearAuth ls = removeItem ls AUTH_KEY"

definition isTeacher :: "jsval \<Rightarrow> js_error + jsval" where
  "isTeacher auth =
     js_and auth
       (case get_prop auth ''role'' of
          Inl e \<Rightarrow> Inl e
        | Inr role \<Rightarrow> Inr (JBool (role = JStr ''teacher'' \<or> role = JStr ''admin'')))"

section \<open>Notions of the specification\<close>

text \<open>
  The error field a server supplies: the \<^verbatim>\<open>error\<close> property of a decoded body that is
  an object, when that property is truthy.
\<close>

definition server_error :: "jsval \<Rightarrow> jsval option" where
  "server_error data =
     (case data of
        JObj kvs \<Rightarrow>
          (case map_of kvs ''error'' of
             Some v \<Rightarrow> if truthy v then Some v else None
           | None \<Rightarrow> None)
      | _ \<Rightarrow> None)"

text \<open>
  The interface catalog of the specification: for each operation its HTTP method and its
  path, where \<^verbatim>\<open>{id}\<close> and \<^verbatim>\<open>{username}\<close> stand for the operation's first argument.
\<close>

fun catalog :: "api_op \<Rightarrow> string \<times> string" where
  "catalog (Register payload) = (''POST'', ''/register'')"
| "catalog (Login payload) = (''POST'', ''/login'')"
| "catalog GetChallenges = (''GET'', ''/challenges'')"
| "catalog (GetChallenge a) = (''GET'', ''/challenges/{id}'')"
| "catalog (AddChallenge payload) = (''POST'', ''/add_challenge'')"
| "catalog (UpdateChallenge a payload) = (''PUT'', ''/challenges/{id}'')"
| "catalog (DeleteChallenge a payload) = (''DELETE'', ''/challenges/{id}'')"
| "catalog (Submit payload) = (''POST'', ''/submit'')"
| "catalog (GetSubmissions a) = (''GET'', ''/submissions/{username}'')"
| "catalog (TeacherListSubmissions payload) = (''POST'', ''/teacher/submissions'')"
| "catalog (TeacherUpdateSubmission a payload) = (''PUT'', ''/teacher/submissions/{id}'')"
| "catalog (AddTestCase a payload) = (''POST'', ''/challenges/{id}/add_test_case'')"
| "catalog (DeleteTestCase a payload) = (''DELETE'', ''/test_cases/{id}'')"
| "catalog (AddSolutionTemplate a payload) = (''POST'', ''/challenges/{id}/add_solution_template'')"
| "catalog (DeleteSolutionTemplate a payload) = (''DELETE'', ''/solution_templates/{id}'')"
| "catalog (ExportChallenge a) = (''GET'', ''/challenges/{id}/export'')"
| "catalog (CopyChallenge a payload) = (''POST'', ''/challenges/{id}/copy'')"
| "catalog (ImportChallenge payload) = (''POST'', ''/import_challenge'')"

text \<open>A catalog path with the text \<open>a\<close> in the place of its \<^verbatim>\<open>{...}\<close>.\<close>

fun fill :: "string \<Rightarrow> string \<Rightarrow> string" where
  "fill [] a = []"
| "fill (c # cs) a =
     (if c = CHR ''{'' then a @ tl (dropWhile (\<lambda>x. x \<noteq> CHR ''}'') cs)
      else c # fill cs a)"

text \<open>
  The text an operation puts in that place: its first argument as a string, URI-encoded by
  the two operations that encode it; and the payload an operation gives as the body.
\<close>

fun path_arg :: "platform \<Rightarrow> api_op \<Rightarrow> js_error + string" where
  "path_arg P (GetChallenge a) = js_String P a"
| "path_arg P (UpdateChallenge a payload) = js_String P a"
| "path_arg P (DeleteChallenge a payload) = js_String P a"
| "path_arg P (GetSubmissions a) = encodeURIComponent P a"
| "path_arg P (TeacherUpdateSubmission a payload) = encodeURIComponent P a"
| "path_arg P (AddTestCase a payload) = js_String P a"
| "path_arg P (DeleteTestCase a payload) = js_String P a"
| "path_arg P (AddSolutionTemplate a payload) = js_String P a"
| "path_arg P (DeleteSolutionTemplate a payload) = js_String P a"
| "path_arg P (ExportChallenge a) = js_String P a"
| "path_arg P (CopyChallenge a payload) = js_String P a"
| "path_arg P other = Inr []"

fun op_body :: "api_op \<Rightarrow> jsval" where
  "op_body (Register payload) = payload"
| "op_body (Login payload) = payload"
| "op_body (AddChallenge payload) = payload"
| "op_body (UpdateChallenge a payload) = payload"
| "op_body (DeleteChallenge a payload) = payload"
| "op_body (Submit payload) = payload"
| "op_body (TeacherListSubmissions payload) = payload"
| "op_body (TeacherUpdateSubmission a payload) = payload"
| "op_body (AddTestCase a payload) = payload"
| "op_body (DeleteTestCase a payload) = payload"
| "op_body (AddSolutionTemplate a payload) = payload"
| "op_body (DeleteSolutionTemplate a payload) = payload"
| "op_body (CopyChallenge a payload) = payload"
| "op_body (ImportChallenge payload) = payload"
| "op_body other = JUndefined"

text \<open>The entity that escaping puts for a character, and the five entities.\<close>

definition escape_char :: "char \<Rightarrow> string" where
  "escape_char c =
     (if c = CHR ''&'' then ''&amp;''
      else if c = CHR ''<'' then ''&lt;''
      else if c = CHR ''>'' then ''&gt;''
      else if c = CHR 0x22 then ''&quot;''
      else if c = CHR 0x27 then ''&#039;''
      else [c])"

definition entities :: "string list" where
  "entities = [''&amp;'', ''&lt;'', ''&gt;'', ''&quot;'', ''&#039;'']"

text \<open>
  A browser for the examples: every request is answered with the response \<open>res\<close>; the
  JSON functions and the string conversions are the browser's on the texts and values
  listed, which are the only ones the examples give them.
\<close>

definition sample_platform :: "response \<Rightarrow> platform" where
  \<open>sample_platform res =
     \<lparr>JSON_parse = (\<lambda>s.
        if s = ''{"error":""}'' then Inr (JObj [(''error'', JStr [])])
        else if s = ''{"error":"Invalid credentials"}''
          then Inr (JObj [(''error'', JStr ''Invalid credentials'')])
        else if s = ''{"error":{"toString":1}}''
          then Inr (JObj [(''error'', JObj [(''toString'', JNum 1)])])
        else if s = ''{"role":"admin"}'' then Inr (JObj [(''role'', JStr ''admin'')])
        else Inl SyntaxError),
      JSON_stringify = (\<lambda>v.
        if v = JObj [(''role'', JStr ''admin'')] then Inr (Some ''{"role":"admin"}'')
        else if v = JObj [] then Inr (Some ''{}'')
        else if v = JNum 0 then Inr (Some ''0'')
        else if v = JBigInt 1 then Inl TypeError
        else Inr None),
      ToString = (\<lambda>v.
        if v = JNum 7 then Inr ''7''
        else if v = JObj [(''toString'', JNum 1)] then Inl TypeError
        else Inr ''undefined''),
      encodeURIComponent = (\<lambda>v.
        if v = JStr ''a b'' then Inr ''a%20b''
        else if v = JObj [(''toString'', JNum 1)] then Inl TypeError
        else Inr ''undefined''),
      fetch = (\<lambda>req. Inr res)\<rparr>\<close>

section \<open>Properties of the request gateway\<close>

lemma truthy_iff:
  "truthy v \<longleftrightarrow> v \<notin> {JUndefined, JNull, JBool False, JNum 0, JNaN, JBigInt 0, JStr []}"
  by (cases v) auto

lemma fst_requestJson:
  "fst (requestJson P path opts) =
     (case the_request P path opts of Inl e \<Rightarrow> [] | Inr req \<Rightarrow> [req])"
  by (simp add: requestJson_def split: sum.splits)

lemma requestJson_no_request:
  "the_request P path opts = Inl e \<Longrightarrow> requestJson P path opts = ([], Inl e)"
  by (simp add: requestJson_def)

lemma snd_requestJson:
  assumes "the_request P path opts = Inr req" and "fetch P req = Inr res"
  shows "snd (requestJson P path opts) =
     (case decode P (body_text res) of
        Inl e \<Rightarrow> Inl e
      | Inr data \<Rightarrow>
          if \<not> ok res then
            (case error_msg P data res of
               Inl e \<Rightarrow> Inl e
             | Inr msg \<Rightarrow>
                 (case js_String P msg of
                    Inl e \<Rightarrow> Inl e
                  | Inr m \<Rightarrow> Inl (Err m (status res) data)))
          else Inr data)"
  using assms by (simp add: requestJson_def)

text \<open>Decoding never throws: the handler turns a failed parse into the fallback object.\<close>

lemma decode_cases:
  "decode P text =
     Inr (if text = [] then JObj []
          else case JSON_parse P text of
                 Inl e \<Rightarrow> JObj [(''raw'', JStr text)]
               | Inr v \<Rightarrow> v)"
  by (simp add: decode_def try_catch_def split: sum.splits)

text \<open>
  Choosing the message never throws: \<^verbatim>\<open>data.error\<close> is read only from a truthy
  \<open>data\<close>, which is neither \<^verbatim>\<open>undefined\<close> nor \<^verbatim>\<open>null\<close>.
\<close>

lemma error_msg_cases:
  "error_msg P data res =
     Inr (case server_error data of
            Some v \<Rightarrow> v
          | None \<Rightarrow> JStr (''HTTP '' @ show_nat (status res)))"
  by (cases data)
     (simp_all add: error_msg_def js_and_def server_error_def split: option.splits)

text \<open>
  What \<^verbatim>\<open>requestJson\<close> throws for a response that is not 2xx: the exception of the
  conversion of the error field to a string, or the error with that string as its message.
\<close>

lemma requestJson_not_ok:
  assumes "the_request P path opts = Inr req" and "fetch P req = Inr res" and "\<not> ok res"
  shows "\<exists>data. decode P (body_text res) = Inr data \<and>
           snd (requestJson P path opts) =
             Inl (case server_error data of
                    Some v \<Rightarrow>
                      (case js_String P v of
                         Inl x \<Rightarrow> x
                       | Inr m \<Rightarrow> Err m (status res) data)
                  | None \<Rightarrow> Err (''HTTP '' @ show_nat (status res)) (status res) data)"
proof -
  obtain data where d: "decode P (body_text res) = Inr data"
    by (simp add: decode_cases)
  have "snd (requestJson P path opts) =
          Inl (case server_error data of
                 Some v \<Rightarrow>
                   (case js_String P v of
                      Inl x \<Rightarrow> x
                    | Inr m \<Rightarrow> Err m (status res) data)
               | None \<Rightarrow> Err (''HTTP '' @ show_nat (status res)) (status res) data)"
    using assms d
    by (simp add: snd_requestJson error_msg_cases js_String_def split: option.splits sum.splits)
  with d show ?thesis by simp
qed

lemma sample_fetch [simp]: "fetch (sample_platform r) q = Inr r"
  by (simp add: sample_platform_def)

lemma no_options_request [simp]:
  "the_request P path no_options =
     Inr \<lparr>req_path = path, req_method = ''GET'',
          req_headers = [(''Content-Type'', ''application/json'')], req_body = None\<rparr>"
  by (simp add: the_request_def request_body_def no_options_def)

text \<open>
  C3. For every 2xx response whose body text is the empty string, \<^verbatim>\<open>requestJson\<close>
  returns the empty object.
\<close>

theorem requestJson_empty_body:
  assumes "the_request P path opts = Inr req"
    and "fetch P req = Inr res"
    and "ok res"
    and "body_text res = []"
  shows "snd (requestJson P path opts) = Inr (JObj [])"
  using assms by (simp add: snd_requestJson decode_cases)

text \<open>An example: \<^verbatim>\<open>GET /challenges\<close> answered with status 204 and no body.\<close>

theorem requestJson_empty_body_witness:
  "the_request (sample_platform \<lparr>status = 204, body_text = []\<rparr>) ''/challenges'' no_options
     = Inr \<lparr>req_path = ''/challenges'', req_method = ''GET'',
            req_headers = [(''Content-Type'', ''application/json'')], req_body = None\<rparr>
   \<and> fetch (sample_platform \<lparr>status = 204, body_text = []\<rparr>)
        \<lparr>req_path = ''/challenges'', req_method = ''GET'',
         req_headers = [(''Content-Type'', ''application/json'')], req_body = None\<rparr>
       = Inr \<lparr>status = 204, body_text = []\<rparr>
   \<and> ok \<lparr>status = 204, body_text = []\<rparr>
   \<and> body_text \<lparr>status = 204, body_text = []\<rparr> = []
   \<and> snd (requestJson (sample_platform \<lparr>status = 204, body_text = []\<rparr>) ''/challenges'' no_options)
       = Inr (JObj [])"
  using requestJson_empty_body
          [of "sample_platform \<lparr>status = 204, body_text = []\<rparr>" "''/challenges''" no_options
              "\<lparr>req_path = ''/challenges'', req_method = ''GET'',
                req_headers = [(''Content-Type'', ''application/json'')], req_body = None\<rparr>"
              "\<lparr>status = 204, body_text = []\<rparr>"]
  by (simp add: ok_def)

text \<open>
  C2. For every non-empty response text that is not valid JSON, \<^verbatim>\<open>requestJson\<close>
  decodes it to the object \<^verbatim>\<open>{ raw: text }\<close> without throwing, and a call answered by
  a 2xx response with that text returns this object.
\<close>

theorem requestJson_invalid_json:
  assumes "text \<noteq> []" and "isl (JSON_parse P text)"
  shows "decode P text = Inr (JObj [(''raw'', JStr text)]) \<and>
         (\<forall>path opts req res.
            the_request P path opts = Inr req \<and> fetch P req = Inr res \<and>
            ok res \<and> body_text res = text \<longrightarrow>
            snd (requestJson P path opts) = Inr (JObj [(''raw'', JStr text)]))"
proof -
  have d: "decode P text = Inr (JObj [(''raw'', JStr text)])"
    using assms by (auto simp: decode_cases isl_def split: sum.splits)
  show ?thesis
    using d by (auto simp: snd_requestJson)
qed

text \<open>An example: a 200 response whose body is an HTML page.\<close>

theorem requestJson_invalid_json_witness:
  "''<html>'' \<noteq> []
   \<and> isl (JSON_parse (sample_platform \<lparr>status = 200, body_text = ''<html>''\<rparr>) ''<html>'')
   \<and> the_request (sample_platform \<lparr>status = 200, body_text = ''<html>''\<rparr>)
        ''/challenges'' no_options
       = Inr \<lparr>req_path = ''/challenges'', req_method = ''GET'',
              req_headers = [(''Content-Type'', ''application/json'')], req_body = None\<rparr>
   \<and> fetch (sample_platform \<lparr>status = 200, body_text = ''<html>''\<rparr>)
        \<lparr>req_path = ''/challenges'', req_method = ''GET'',
         req_headers = [(''Content-Type'', ''application/json'')], req_body = None\<rparr>
       = Inr \<lparr>status = 200, body_text = ''<html>''\<rparr>
   \<and> ok \<lparr>status = 200, body_text = ''<html>''\<rparr>
   \<and> decode (sample_platform \<lparr>status = 200, body_text = ''<html>''\<rparr>) ''<html>''
       = Inr (JObj [(''raw'', JStr ''<html>'')])
   \<and> snd (requestJson (sample_platform \<lparr>status = 200, body_text = ''<html>''\<rparr>)
             ''/challenges'' no_options)
       = Inr (JObj [(''raw'', JStr ''<html>'')])"
proof -
  let ?r = "\<lparr>status = 200, body_text = ''<html>''\<rparr>"
  have p: "isl (JSON_parse (sample_platform ?r) ''<html>'')"
    by (simp add: sample_platform_def)
  have o: "ok ?r"
    by (simp add: ok_def)
  from requestJson_invalid_json [of "''<html>''" "sample_platform ?r", OF _ p]
  have "decode (sample_platform ?r) ''<html>'' = Inr (JObj [(''raw'', JStr ''<html>'')])"
    and "snd (requestJson (sample_platform ?r) ''/challenges'' no_options)
           = Inr (JObj [(''raw'', JStr ''<html>'')])"
    using o by simp_all
  with p o show ?thesis by simp
qed

text \<open>
  C6, as the code has it. For a response that is not 2xx, \<^verbatim>\<open>requestJson\<close> throws.
  The error it throws carries the status code of the response in its field
  \<^verbatim>\<open>status\<close> and the decoded body in its field \<^verbatim>\<open>data\<close> whenever its message is
  built: when the decoded body has no truthy \<^verbatim>\<open>error\<close> field, and when the conversion
  of that field to a string returns. When that conversion throws, its exception is what
  \<^verbatim>\<open>requestJson\<close> throws.
\<close>

theorem requestJson_error_fields:
  assumes "the_request P path opts = Inr req" and "fetch P req = Inr res" and "\<not> ok res"
  shows "\<exists>e data. snd (requestJson P path opts) = Inl e \<and>
           decode P (body_text res) = Inr data \<and>
           (server_error data = None \<longrightarrow>
              (\<exists>m. e = Err m (status res) data) \<and>
              err_status e = status res \<and> err_data e = data) \<and>
           (\<forall>v m. server_error data = Some v \<and> js_String P v = Inr m \<longrightarrow>
              e = Err m (status res) data \<and>
              err_status e = status res \<and> err_data e = data) \<and>
           (\<forall>v x. server_error data = Some v \<and> js_String P v = Inl x \<longrightarrow> e = x)"
  using requestJson_not_ok [OF assms] by auto

text \<open>
  Two examples: a 401 response whose body has a text as its \<^verbatim>\<open>error\<close> field, and a
  500 response whose body is not JSON.
\<close>

theorem requestJson_error_fields_witness:
  \<open>the_request
      (sample_platform \<lparr>status = 401, body_text = ''{"error":"Invalid credentials"}''\<rparr>)
      ''/login'' \<lparr>opt_method = Some ''POST'', opt_body = JObj []\<rparr>
     = Inr \<lparr>req_path = ''/login'', req_method = ''POST'',
            req_headers = [(''Content-Type'', ''application/json'')], req_body = Some ''{}''\<rparr>
   \<and> \<not> ok \<lparr>status = 401, body_text = ''{"error":"Invalid credentials"}''\<rparr>
   \<and> server_error (JObj [(''error'', JStr ''Invalid credentials'')])
       = Some (JStr ''Invalid credentials'')
   \<and> (\<exists>e. snd (requestJson
                  (sample_platform
                     \<lparr>status = 401, body_text = ''{"error":"Invalid credentials"}''\<rparr>)
                  ''/login'' \<lparr>opt_method = Some ''POST'', opt_body = JObj []\<rparr>) = Inl e
          \<and> err_status e = 401
          \<and> err_data e = JObj [(''error'', JStr ''Invalid credentials'')])
   \<and> \<not> ok \<lparr>status = 500, body_text = ''<html>''\<rparr>
   \<and> server_error (JObj [(''raw'', JStr ''<html>'')]) = None
   \<and> (\<exists>e. snd (requestJson (sample_platform \<lparr>status = 500, body_text = ''<html>''\<rparr>)
                  ''/challenges'' no_options) = Inl e
          \<and> err_status e = 500
          \<and> err_data e = JObj [(''raw'', JStr ''<html>'')])\<close>
proof -
  let ?r = \<open>\<lparr>status = 401, body_text = ''{"error":"Invalid credentials"}''\<rparr>\<close>
  let ?q = \<open>\<lparr>status = 500, body_text = ''<html>''\<rparr>\<close>
  let ?o = "\<lparr>opt_method = Some ''POST'', opt_body = JObj []\<rparr>"
  let ?req = "\<lparr>req_path = ''/login'', req_method = ''POST'',
               req_headers = [(''Content-Type'', ''application/json'')], req_body = Some ''{}''\<rparr>"
  have t: "the_request (sample_platform ?r) ''/login'' ?o = Inr ?req"
    by (simp add: the_request_def request_body_def sample_platform_def)
  have o: "\<not> ok ?r" "\<not> ok ?q"
    by (simp_all add: ok_def)
  have d: "decode (sample_platform ?r) (body_text ?r)
             = Inr (JObj [(''error'', JStr ''Invalid credentials'')])"
          "decode (sample_platform ?q) (body_text ?q) = Inr (JObj [(''raw'', JStr ''<html>'')])"
    by (simp_all add: decode_cases sample_platform_def)
  have s: "server_error (JObj [(''error'', JStr ''Invalid credentials'')])
             = Some (JStr ''Invalid credentials'')"
          "server_error (JObj [(''raw'', JStr ''<html>'')]) = None"
    by (simp_all add: server_error_def)
  have j: "js_String (sample_platform ?r) (JStr ''Invalid credentials'')
             = Inr ''Invalid credentials''"
    by (simp add: js_String_def)
  from requestJson_error_fields [of "sample_platform ?r" "''/login''" ?o ?req ?r, OF t _ o(1)]
  have a: "\<exists>e. snd (requestJson (sample_platform ?r) ''/login'' ?o) = Inl e
               \<and> err_status e = 401
               \<and> err_data e = JObj [(''error'', JStr ''Invalid credentials'')]"
    using d(1) s(1) j by auto
  from requestJson_error_fields
         [of "sample_platform ?q" "''/challenges''" no_options _ ?q, OF no_options_request _ o(2)]
  have b: "\<exists>e. snd (requestJson (sample_platform ?q) ''/challenges'' no_options) = Inl e
               \<and> err_status e = 500
               \<and> err_data e = JObj [(''raw'', JStr ''<html>'')]"
    using d(2) s(2) by auto
  from t o s a b show ?thesis by simp
qed

text \<open>
  C6 as it is stated fails where the conversion of the error field to a string throws: for
  a 500 response with the body \<^verbatim>\<open>{"error":{"toString":1}}\<close> the error field is an
  object that has no usable \<^verbatim>\<open>toString\<close>, \<^verbatim>\<open>new Error(msg)\<close> throws a
  \<^verbatim>\<open>TypeError\<close>, and that exception has neither the status nor the decoded body.
\<close>

theorem requestJson_error_fields_counterexample:
  \<open>\<not> ok \<lparr>status = 500, body_text = ''{"error":{"toString":1}}''\<rparr>
   \<and> decode (sample_platform \<lparr>status = 500, body_text = ''{"error":{"toString":1}}''\<rparr>)
        ''{"error":{"toString":1}}''
       = Inr (JObj [(''error'', JObj [(''toString'', JNum 1)])])
   \<and> snd (requestJson
            (sample_platform \<lparr>status = 500, body_text = ''{"error":{"toString":1}}''\<rparr>)
            ''/challenges'' no_options)
       = Inl TypeError\<close>
proof -
  let ?r = \<open>\<lparr>status = 500, body_text = ''{"error":{"toString":1}}''\<rparr>\<close>
  have o: "\<not> ok ?r"
    by (simp add: ok_def)
  have d: \<open>decode (sample_platform ?r) ''{"error":{"toString":1}}''
             = Inr (JObj [(''error'', JObj [(''toString'', JNum 1)])])\<close>
    by (simp add: decode_cases sample_platform_def)
  have j: "js_String (sample_platform ?r) (JObj [(''toString'', JNum 1)]) = Inl TypeError"
    by (simp add: js_String_def sample_platform_def)
  have "snd (requestJson (sample_platform ?r) ''/challenges'' no_options) = Inl TypeError"
    using o d j
    by (simp add: snd_requestJson [OF no_options_request] error_msg_cases server_error_def)
  with o d show ?thesis by simp
qed

text \<open>
  C1, as the code has it. For every response that is not 2xx, \<^verbatim>\<open>requestJson\<close>
  throws. When the decoded body is an object whose \<^verbatim>\<open>error\<close> field is truthy, the
  message of the error is that field as a string, provided the conversion to a string
  returns: a field that is a string is the message as it is, and an exception of the
  conversion is thrown in the place of the error. Otherwise the message is
  \<^verbatim>\<open>HTTP\<close>, a space and the decimal status code.
\<close>

theorem requestJson_error_message:
  assumes "the_request P path opts = Inr req" and "fetch P req = Inr res" and "\<not> ok res"
  shows "\<exists>e data. snd (requestJson P path opts) = Inl e \<and>
           decode P (body_text res) = Inr data \<and>
           (\<forall>v m. server_error data = Some v \<and> js_String P v = Inr m \<longrightarrow>
              (\<exists>st d. e = Err m st d) \<and> err_message e = m) \<and>
           (\<forall>s. server_error data = Some (JStr s) \<longrightarrow>
              (\<exists>st d. e = Err s st d) \<and> err_message e = s) \<and>
           (\<forall>v x. server_error data = Some v \<and> js_String P v = Inl x \<longrightarrow> e = x) \<and>
           (server_error data = None \<longrightarrow>
              (\<exists>st d. e = Err (''HTTP '' @ show_nat (status res)) st d) \<and>
              err_message e = ''HTTP '' @ show_nat (status res))"
  using requestJson_not_ok [OF assms] by (auto simp: js_String_def)

text \<open>
  Three examples: a 401 response whose body has a non-empty \<^verbatim>\<open>error\<close> text, a 500
  response whose body is not JSON, and a 500 response whose \<^verbatim>\<open>error\<close> field cannot be
  converted to a string.
\<close>

theorem requestJson_error_message_witness:
  \<open>\<not> ok \<lparr>status = 401, body_text = ''{"error":"Invalid credentials"}''\<rparr>
   \<and> server_error (JObj [(''error'', JStr ''Invalid credentials'')])
       = Some (JStr ''Invalid credentials'')
   \<and> (\<exists>e. snd (requestJson
                  (sample_platform
                     \<lparr>status = 401, body_text = ''{"error":"Invalid credentials"}''\<rparr>)
                  ''/challenges'' no_options) = Inl e
          \<and> err_message e = ''Invalid credentials'')
   \<and> \<not> ok \<lparr>status = 500, body_text = ''<html>''\<rparr>
   \<and> server_error (JObj [(''raw'', JStr ''<html>'')]) = None
   \<and> (\<exists>e. snd (requestJson (sample_platform \<lparr>status = 500, body_text = ''<html>''\<rparr>)
                  ''/challenges'' no_options) = Inl e
          \<and> err_message e = ''HTTP 500'')
   \<and> \<not> ok \<lparr>status = 500, body_text = ''{"error":{"toString":1}}''\<rparr>
   \<and> server_error (JObj [(''error'', JObj [(''toString'', JNum 1)])])
       = Some (JObj [(''toString'', JNum 1)])
   \<and> js_String (sample_platform \<lparr>status = 500, body_text = ''{"error":{"toString":1}}''\<rparr>)
        (JObj [(''toString'', JNum 1)]) = Inl TypeError
   \<and> snd (requestJson
            (sample_platform \<lparr>status = 500, body_text = ''{"error":{"toString":1}}''\<rparr>)
            ''/challenges'' no_options) = Inl TypeError\<close>
proof -
  let ?r = \<open>\<lparr>status = 401, body_text = ''{"error":"Invalid credentials"}''\<rparr>\<close>
  let ?q = \<open>\<lparr>status = 500, body_text = ''<html>''\<rparr>\<close>
  let ?u = \<open>\<lparr>status = 500, body_text = ''{"error":{"toString":1}}''\<rparr>\<close>
  have o: "\<not> ok ?r" "\<not> ok ?q" "\<not> ok ?u"
    by (simp_all add: ok_def)
  have d: "decode (sample_platform ?r) (body_text ?r)
             = Inr (JObj [(''error'', JStr ''Invalid credentials'')])"
          "decode (sample_platform ?q) (body_text ?q) = Inr (JObj [(''raw'', JStr ''<html>'')])"
          "decode (sample_platform ?u) (body_text ?u)
             = Inr (JObj [(''error'', JObj [(''toString'', JNum 1)])])"
    by (simp_all add: decode_cases sample_platform_def)
  have s: "server_error (JObj [(''error'', JStr ''Invalid credentials'')])
             = Some (JStr ''Invalid credentials'')"
          "server_error (JObj [(''raw'', JStr ''<html>'')]) = None"
          "server_error (JObj [(''error'', JObj [(''toString'', JNum 1)])])
             = Some (JObj [(''toString'', JNum 1)])"
    by (simp_all add: server_error_def)
  have j: "js_String (sample_platform ?u) (JObj [(''toString'', JNum 1)]) = Inl TypeError"
    by (simp add: js_String_def sample_platform_def)
  have n: "show_nat 500 = ''500''"
    by (simp add: show_nat.simps digit_def)
  from requestJson_error_message
         [of "sample_platform ?r" "''/challenges''" no_options _ ?r, OF no_options_request _ o(1)]
  have a: "\<exists>e. snd (requestJson (sample_platform ?r) ''/challenges'' no_options) = Inl e
               \<and> err_message e = ''Invalid credentials''"
    using d(1) s(1) by auto
  from requestJson_error_message
         [of "sample_platform ?q" "''/challenges''" no_options _ ?q, OF no_options_request _ o(2)]
  have b: "\<exists>e. snd (requestJson (sample_platform ?q) ''/challenges'' no_options) = Inl e
               \<and> err_message e = ''HTTP 500''"
    using d(2) s(2) n by auto
  from requestJson_error_message
         [of "sample_platform ?u" "''/challenges''" no_options _ ?u, OF no_options_request _ o(3)]
  have c: "snd (requestJson (sample_platform ?u) ''/challenges'' no_options) = Inl TypeError"
    using d(3) s(3) j by auto
  from o s j a b c show ?thesis by simp
qed

text \<open>
  C1 as it is stated fails where the \<^verbatim>\<open>error\<close> field is present and falsy: for a 500
  response with the body \<^verbatim>\<open>{"error":""}\<close> the decoded body has the field, with the
  empty string as its value, and the message of the error is \<^verbatim>\<open>HTTP 500\<close>.
\<close>

theorem requestJson_error_message_counterexample:
  \<open>\<not> ok \<lparr>status = 500, body_text = ''{"error":""}''\<rparr>
   \<and> decode (sample_platform \<lparr>status = 500, body_text = ''{"error":""}''\<rparr>) ''{"error":""}''
       = Inr (JObj [(''error'', JStr [])])
   \<and> map_of [(''error'', JStr [])] ''error'' = Some (JStr [])
   \<and> snd (requestJson (sample_platform \<lparr>status = 500, body_text = ''{"error":""}''\<rparr>)
            ''/challenges'' no_options)
       = Inl (Err ''HTTP 500'' 500 (JObj [(''error'', JStr [])]))
   \<and> err_message (Err ''HTTP 500'' 500 (JObj [(''error'', JStr [])])) \<noteq> []\<close>
proof -
  let ?r = \<open>\<lparr>status = 500, body_text = ''{"error":""}''\<rparr>\<close>
  have o: "\<not> ok ?r"
    by (simp add: ok_def)
  have d: \<open>decode (sample_platform ?r) ''{"error":""}'' = Inr (JObj [(''error'', JStr [])])\<close>
    by (simp add: decode_cases sample_platform_def)
  have n: "show_nat 500 = ''500''"
    by (simp add: show_nat.simps digit_def)
  have "snd (requestJson (sample_platform ?r) ''/challenges'' no_options)
          = Inl (Err ''HTTP 500'' 500 (JObj [(''error'', JStr [])]))"
    using o d n
    by (simp add: snd_requestJson [OF no_options_request] error_msg_cases server_error_def
          js_String_def)
  with o d show ?thesis by simp
qed

text \<open>
  C5, as the code has it. For every path, optional method and optional body,
  \<^verbatim>\<open>requestJson\<close> passes at most one request to \<^verbatim>\<open>fetch\<close>. When the body is
  falsy, it passes exactly one: to that path, with the given method or \<^verbatim>\<open>GET\<close> when
  none is given, with the one header \<^verbatim>\<open>Content-Type: application/json\<close>, and with no
  body. When the body is truthy and \<^verbatim>\<open>JSON.stringify\<close> returns, it passes exactly
  one, the same but with what \<^verbatim>\<open>JSON.stringify\<close> returned as its body. When the body
  is truthy and \<^verbatim>\<open>JSON.stringify\<close> throws, it passes none and throws that
  exception.
\<close>

theorem requestJson_one_fetch:
  "length (fst (requestJson P path \<lparr>opt_method = m, opt_body = b\<rparr>)) \<le> 1 \<and>
   (\<not> truthy b \<longrightarrow>
      fst (requestJson P path \<lparr>opt_method = m, opt_body = b\<rparr>) =
        [\<lparr>req_path = path,
          req_method = (case m of None \<Rightarrow> ''GET'' | Some x \<Rightarrow> x),
          req_headers = [(''Content-Type'', ''application/json'')],
          req_body = None\<rparr>]) \<and>
   (\<forall>t. truthy b \<and> JSON_stringify P b = Inr t \<longrightarrow>
      fst (requestJson P path \<lparr>opt_method = m, opt_body = b\<rparr>) =
        [\<lparr>req_path = path,
          req_method = (case m of None \<Rightarrow> ''GET'' | Some x \<Rightarrow> x),
          req_headers = [(''Content-Type'', ''application/json'')],
          req_body = t\<rparr>]) \<and>
   (\<forall>e. truthy b \<and> JSON_stringify P b = Inl e \<longrightarrow>
      requestJson P path \<lparr>opt_method = m, opt_body = b\<rparr> = ([], Inl e))"
  by (auto simp: requestJson_def the_request_def request_body_def split: sum.splits)

text \<open>
  Three examples: a \<^verbatim>\<open>POST\<close> with an object as its body, a call with no options, and
  a \<^verbatim>\<open>POST\<close> with a big integer as its body, which \<^verbatim>\<open>JSON.stringify\<close> refuses.
\<close>

theorem requestJson_one_fetch_witness:
  \<open>truthy (JObj [(''role'', JStr ''admin'')])
   \<and> JSON_stringify (sample_platform \<lparr>status = 200, body_text = []\<rparr>)
        (JObj [(''role'', JStr ''admin'')]) = Inr (Some ''{"role":"admin"}'')
   \<and> fst (requestJson (sample_platform \<lparr>status = 200, body_text = []\<rparr>) ''/login''
            \<lparr>opt_method = Some ''POST'', opt_body = JObj [(''role'', JStr ''admin'')]\<rparr>)
       = [\<lparr>req_path = ''/login'', req_method = ''POST'',
           req_headers = [(''Content-Type'', ''application/json'')],
           req_body = Some ''{"role":"admin"}''\<rparr>]
   \<and> \<not> truthy JUndefined
   \<and> fst (requestJson (sample_platform \<lparr>status = 200, body_text = []\<rparr>) ''/challenges''
            \<lparr>opt_method = None, opt_body = JUndefined\<rparr>)
       = [\<lparr>req_path = ''/challenges'', req_method = ''GET'',
           req_headers = [(''Content-Type'', ''application/json'')],
           req_body = None\<rparr>]
   \<and> truthy (JBigInt 1)
   \<and> JSON_stringify (sample_platform \<lparr>status = 200, body_text = []\<rparr>) (JBigInt 1)
       = Inl TypeError
   \<and> requestJson (sample_platform \<lparr>status = 200, body_text = []\<rparr>) ''/submit''
        \<lparr>opt_method = Some ''POST'', opt_body = JBigInt 1\<rparr>
       = ([], Inl TypeError)\<close>
proof -
  let ?P = "sample_platform \<lparr>status = 200, body_text = []\<rparr>"
  have j: \<open>JSON_stringify ?P (JObj [(''role'', JStr ''admin'')]) = Inr (Some ''{"role":"admin"}'')\<close>
    "JSON_stringify ?P (JBigInt 1) = Inl TypeError"
    by (simp_all add: sample_platform_def)
  have t: "truthy (JObj [(''role'', JStr ''admin'')])" "\<not> truthy JUndefined" "truthy (JBigInt 1)"
    by simp_all
  from requestJson_one_fetch
         [of ?P "''/login''" "Some ''POST''" "JObj [(''role'', JStr ''admin'')]"] j(1) t(1)
  have a: \<open>fst (requestJson ?P ''/login''
                  \<lparr>opt_method = Some ''POST'', opt_body = JObj [(''role'', JStr ''admin'')]\<rparr>)
             = [\<lparr>req_path = ''/login'', req_method = ''POST'',
                 req_headers = [(''Content-Type'', ''application/json'')],
                 req_body = Some ''{"role":"admin"}''\<rparr>]\<close>
    by simp
  from requestJson_one_fetch [of ?P "''/challenges''" None JUndefined] t(2)
  have b: "fst (requestJson ?P ''/challenges'' \<lparr>opt_method = None, opt_body = JUndefined\<rparr>)
             = [\<lparr>req_path = ''/challenges'', req_method = ''GET'',
                 req_headers = [(''Content-Type'', ''application/json'')],
                 req_body = None\<rparr>]"
    by simp
  from requestJson_one_fetch [of ?P "''/submit''" "Some ''POST''" "JBigInt 1"] j(2) t(3)
  have c: "requestJson ?P ''/submit'' \<lparr>opt_method = Some ''POST'', opt_body = JBigInt 1\<rparr>
             = ([], Inl TypeError)"
    by simp
  from j t a b c show ?thesis by simp
qed

text \<open>
  C5 as it is stated fails where the body is given and falsy: the body \<^verbatim>\<open>0\<close>, whose
  JSON text is \<^verbatim>\<open>0\<close>, is not sent.
\<close>

theorem requestJson_one_fetch_counterexample:
  "JSON_stringify (sample_platform \<lparr>status = 200, body_text = []\<rparr>) (JNum 0) = Inr (Some ''0'')
   \<and> fst (requestJson (sample_platform \<lparr>status = 200, body_text = []\<rparr>) ''/submit''
            \<lparr>opt_method = Some ''POST'', opt_body = JNum 0\<rparr>)
       = [\<lparr>req_path = ''/submit'', req_method = ''POST'',
           req_headers = [(''Content-Type'', ''application/json'')],
           req_body = None\<rparr>]"
  by (simp add: requestJson_def the_request_def request_body_def sample_platform_def)

section \<open>Properties of the named operations\<close>

lemma with_text_Inl: "with_text (Inl e) call = ([], Inl e)"
  by (simp add: with_text_def)

lemma with_text_Inr: "with_text (Inr s) call = call s"
  by (simp add: with_text_def)

lemma requestJson_trace:
  "request_body P b = Inr t \<Longrightarrow>
   fst (requestJson P path \<lparr>opt_method = m, opt_body = b\<rparr>) =
     [\<lparr>req_path = path,
       req_method = (case m of None \<Rightarrow> ''GET'' | Some x \<Rightarrow> x),
       req_headers = [(''Content-Type'', ''application/json'')],
       req_body = t\<rparr>]"
  "request_body P b = Inl e \<Longrightarrow>
   requestJson P path \<lparr>opt_method = m, opt_body = b\<rparr> = ([], Inl e)"
  by (simp_all add: requestJson_def the_request_def)

text \<open>An operation whose path and body are built passes one request, the catalog's.\<close>

lemma api_built:
  assumes "path_arg P op = Inr a" and "request_body P (op_body op) = Inr t"
  shows "fst (api P op) =
           [\<lparr>req_path = fill (snd (catalog op)) a,
             req_method = fst (catalog op),
             req_headers = [(''Content-Type'', ''application/json'')],
             req_body = t\<rparr>]"
  using assms
  by (cases op) (simp_all add: with_text_Inr requestJson_trace(1) no_options_def)

text \<open>An operation whose path or body cannot be built passes no request and throws.\<close>

lemma api_not_built:
  "path_arg P op = Inl e \<Longrightarrow> api P op = ([], Inl e)"
  "path_arg P op = Inr a \<Longrightarrow> request_body P (op_body op) = Inl e \<Longrightarrow> api P op = ([], Inl e)"
  by (cases op; simp add: with_text_Inl with_text_Inr requestJson_trace(2) no_options_def)+

text \<open>
  C7, as the code has it. Every operation of the \<^verbatim>\<open>api\<close> object passes at most one
  request to \<^verbatim>\<open>fetch\<close>, and a request it passes has the method and the path that the
  interface catalog lists for the operation, with the operation's first argument in the
  place of \<^verbatim>\<open>{id}\<close> or \<^verbatim>\<open>{username}\<close>. It passes exactly one when the text of that
  argument and the body of the request are built without an exception; when the
  conversion of the argument, its URI encoding or \<^verbatim>\<open>JSON.stringify\<close> of the payload
  throws, it passes none and throws that exception.
\<close>

theorem api_catalog:
  "length (fst (api P op)) \<le> 1 \<and>
   (\<forall>req \<in> set (fst (api P op)).
      req_method req = fst (catalog op) \<and>
      (\<exists>a. path_arg P op = Inr a \<and> req_path req = fill (snd (catalog op)) a)) \<and>
   (\<forall>a t. path_arg P op = Inr a \<and> request_body P (op_body op) = Inr t \<longrightarrow>
      (\<exists>req. fst (api P op) = [req] \<and>
             req_method req = fst (catalog op) \<and>
             req_path req = fill (snd (catalog op)) a \<and>
             req_body req = t)) \<and>
   (\<forall>e. path_arg P op = Inl e \<longrightarrow> api P op = ([], Inl e)) \<and>
   (\<forall>a e. path_arg P op = Inr a \<and> request_body P (op_body op) = Inl e \<longrightarrow>
      api P op = ([], Inl e))"
proof (cases "path_arg P op")
  case (Inl e)
  then show ?thesis
    by (simp add: api_not_built(1))
next
  case a: (Inr a)
  show ?thesis
  proof (cases "request_body P (op_body op)")
    case (Inl e)
    with a show ?thesis
      by (simp add: api_not_built(2))
  next
    case (Inr t)
    with a show ?thesis
      by (simp add: api_built)
  qed
qed

text \<open>
  Three examples: exporting the challenge 7, the submissions of a user whose name has a
  space, and a registration whose payload is the empty object.
\<close>

theorem api_catalog_witness:
  \<open>path_arg (sample_platform \<lparr>status = 200, body_text = []\<rparr>) (ExportChallenge (JNum 7))
     = Inr ''7''
   \<and> request_body (sample_platform \<lparr>status = 200, body_text = []\<rparr>)
        (op_body (ExportChallenge (JNum 7))) = Inr None
   \<and> (\<exists>req. fst (api (sample_platform \<lparr>status = 200, body_text = []\<rparr>)
                   (ExportChallenge (JNum 7))) = [req]
            \<and> req_method req = ''GET''
            \<and> req_path req = ''/challenges/7/export''
            \<and> req_body req = None)
   \<and> path_arg (sample_platform \<lparr>status = 200, body_text = []\<rparr>) (GetSubmissions (JStr ''a b''))
       = Inr ''a%20b''
   \<and> (\<exists>req. fst (api (sample_platform \<lparr>status = 200, body_text = []\<rparr>)
                   (GetSubmissions (JStr ''a b''))) = [req]
            \<and> req_method req = ''GET''
            \<and> req_path req = ''/submissions/a%20b'')
   \<and> request_body (sample_platform \<lparr>status = 200, body_text = []\<rparr>)
        (op_body (Register (JObj []))) = Inr (Some ''{}'')
   \<and> (\<exists>req. fst (api (sample_platform \<lparr>status = 200, body_text = []\<rparr>)
                   (Register (JObj []))) = [req]
            \<and> req_method req = ''POST''
            \<and> req_path req = ''/register''
            \<and> req_body req = Some ''{}'')\<close>
proof -
  let ?P = "sample_platform \<lparr>status = 200, body_text = []\<rparr>"
  have p: "path_arg ?P (ExportChallenge (JNum 7)) = Inr ''7''"
    "path_arg ?P (GetSubmissions (JStr ''a b'')) = Inr ''a%20b''"
    "path_arg ?P (Register (JObj [])) = Inr []"
    by (simp_all add: js_String_def sample_platform_def)
  have b: "request_body ?P (op_body (ExportChallenge (JNum 7))) = Inr None"
    "request_body ?P (op_body (GetSubmissions (JStr ''a b''))) = Inr None"
    "request_body ?P (op_body (Register (JObj []))) = Inr (Some ''{}'')"
    by (simp_all add: request_body_def sample_platform_def)
  from api_catalog [of ?P "ExportChallenge (JNum 7)"] p(1) b(1)
  have x: "\<exists>req. fst (api ?P (ExportChallenge (JNum 7))) = [req]
             \<and> req_method req = ''GET''
             \<and> req_path req = ''/challenges/7/export''
             \<and> req_body req = None"
    by (simp del: api.simps)
  from api_catalog [of ?P "GetSubmissions (JStr ''a b'')"] p(2) b(2)
  have y: "\<exists>req. fst (api ?P (GetSubmissions (JStr ''a b''))) = [req]
             \<and> req_method req = ''GET''
             \<and> req_path req = ''/submissions/a%20b''"
    by (auto simp del: api.simps)
  from api_catalog [of ?P "Register (JObj [])"] p(3) b(3)
  have z: "\<exists>req. fst (api ?P (Register (JObj []))) = [req]
             \<and> req_method req = ''POST''
             \<and> req_path req = ''/register''
             \<and> req_body req = Some ''{}''"
    by (simp del: api.simps)
  from p b x y z show ?thesis by (simp del: api.simps)
qed

text \<open>
  C7 as it is stated fails where building the path throws: the operation
  \<^verbatim>\<open>getSubmissions\<close> with the object \<^verbatim>\<open>{toString: 1}\<close> as the user name throws
  the \<^verbatim>\<open>TypeError\<close> of \<^verbatim>\<open>encodeURIComponent\<close> and passes no request to
  \<^verbatim>\<open>fetch\<close>.
\<close>

theorem api_catalog_counterexample:
  "encodeURIComponent (sample_platform \<lparr>status = 200, body_text = []\<rparr>)
     (JObj [(''toString'', JNum 1)]) = Inl TypeError
   \<and> api (sample_platform \<lparr>status = 200, body_text = []\<rparr>)
       (GetSubmissions (JObj [(''toString'', JNum 1)])) = ([], Inl TypeError)"
  by (simp add: with_text_def sample_platform_def)

section \<open>Properties of HTML escaping\<close>

lemma replaceAll_Nil: "replaceAll [] c r = []"
  by (simp add: replaceAll_def)

lemma replaceAll_Cons: "replaceAll (x # xs) c r = (if x = c then r else [x]) @ replaceAll xs c r"
  by (simp add: replaceAll_def)

lemma replaceAll_append: "replaceAll (xs @ ys) c r = replaceAll xs c r @ replaceAll ys c r"
  by (simp add: replaceAll_def)

text \<open>
  The five replacements in sequence amount to one pass over the input: no replacement text
  contains a character that a later replacement looks for.
\<close>

lemma replace_chain:
  "replaceAll
     (replaceAll
       (replaceAll
         (replaceAll (replaceAll s (CHR ''&'') ''&amp;'') (CHR ''<'') ''&lt;'')
         (CHR ''>'') ''&gt;'')
       (CHR 0x22) ''&quot;'')
     (CHR 0x27) ''&#039;''
   = concat (map escape_char s)"
  by (induction s)
     (simp_all add: replaceAll_Nil replaceAll_Cons replaceAll_append escape_char_def)

lemma escapeHtml_concat:
  "escapeHtml P str =
     (case js_String P str of Inl e \<Rightarrow> Inl e | Inr s \<Rightarrow> Inr (concat (map escape_char s)))"
  by (simp add: escapeHtml_def replace_chain split: sum.splits)

lemma escape_char_plain:
  "x \<in> set (escape_char c) \<Longrightarrow>
   x \<noteq> CHR ''<'' \<and> x \<noteq> CHR ''>'' \<and> x \<noteq> CHR 0x22 \<and> x \<noteq> CHR 0x27"
  by (auto simp: escape_char_def split: if_splits)

lemma escape_char_amp:
  assumes "i < length (escape_char c)" and "escape_char c ! i = CHR ''&''"
  shows "i = 0 \<and> escape_char c \<in> set entities"
  using assms
  by (auto simp: escape_char_def entities_def nth_Cons' split: if_splits)

lemma concat_escape_amp:
  assumes "i < length (concat (map escape_char s))"
    and "concat (map escape_char s) ! i = CHR ''&''"
  shows "\<exists>e \<in> set entities. take (length e) (drop i (concat (map escape_char s))) = e"
  using assms
proof (induction s arbitrary: i)
  case Nil
  then show ?case by simp
next
  case (Cons c s)
  let ?h = "escape_char c" and ?t = "concat (map escape_char s)"
  show ?case
  proof (cases "i < length ?h")
    case True
    with Cons.prems have "?h ! i = CHR ''&''"
      by (simp add: nth_append)
    with True have "i = 0" and "?h \<in> set entities"
      using escape_char_amp by blast+
    then show ?thesis
      by (intro bexI [of _ ?h]) simp_all
  next
    case False
    with Cons.prems have "i - length ?h < length ?t" and "?t ! (i - length ?h) = CHR ''&''"
      by (simp_all add: nth_append)
    then obtain e where "e \<in> set entities" and "take (length e) (drop (i - length ?h) ?t) = e"
      using Cons.IH by blast
    with False show ?thesis
      by (intro bexI [of _ e]) simp_all
  qed
qed

text \<open>
  C9. For every input string, \<^verbatim>\<open>escapeHtml\<close> returns, and for every input, what
  \<^verbatim>\<open>escapeHtml\<close> returns contains none of the characters \<^verbatim>\<open><\<close>, \<^verbatim>\<open>>\<close>, the
  double quote and the apostrophe, and at every \<^verbatim>\<open>&\<close> of it starts one of the five
  entities; it is the input, as a string, with each character replaced by its entity or
  kept.
\<close>

theorem escapeHtml_safe:
  "escapeHtml P (JStr s) = Inr (concat (map escape_char s)) \<and>
   (\<forall>out. escapeHtml P str = Inr out \<longrightarrow>
      CHR ''<'' \<notin> set out \<and>
      CHR ''>'' \<notin> set out \<and>
      CHR 0x22 \<notin> set out \<and>
      CHR 0x27 \<notin> set out \<and>
      (\<forall>i < length out.
         out ! i = CHR ''&'' \<longrightarrow>
         (\<exists>e \<in> set entities. take (length e) (drop i out) = e)) \<and>
      (\<exists>t. js_String P str = Inr t \<and> out = concat (map escape_char t)))"
proof -
  have "escapeHtml P (JStr s) = Inr (concat (map escape_char s))"
    by (simp add: escapeHtml_concat js_String_def)
  moreover have
    "CHR ''<'' \<notin> set out \<and> CHR ''>'' \<notin> set out \<and> CHR 0x22 \<notin> set out \<and> CHR 0x27 \<notin> set out \<and>
     (\<forall>i < length out.
        out ! i = CHR ''&'' \<longrightarrow> (\<exists>e \<in> set entities. take (length e) (drop i out) = e)) \<and>
     (\<exists>t. js_String P str = Inr t \<and> out = concat (map escape_char t))"
    if "escapeHtml P str = Inr out" for out
  proof -
    from that obtain t where t: "js_String P str = Inr t" and out: "out = concat (map escape_char t)"
      by (auto simp: escapeHtml_concat split: sum.splits)
    have "x \<noteq> CHR ''<'' \<and> x \<noteq> CHR ''>'' \<and> x \<noteq> CHR 0x22 \<and> x \<noteq> CHR 0x27"
      if "x \<in> set out" for x
      using that escape_char_plain by (auto simp: out)
    then show ?thesis
      using concat_escape_amp [of _ t] t out by auto
  qed
  ultimately show ?thesis by blast
qed

text \<open>An example: a tag with a quoted attribute and an ampersand in its text.\<close>

theorem escapeHtml_safe_witness:
  \<open>escapeHtml (sample_platform \<lparr>status = 200, body_text = []\<rparr>) (JStr ''<a id="x">R&D</a>'')
     = Inr ''&lt;a id=&quot;x&quot;&gt;R&amp;D&lt;/a&gt;''
   \<and> (0::nat) < length ''&lt;a id=&quot;x&quot;&gt;R&amp;D&lt;/a&gt;''
   \<and> ''&lt;a id=&quot;x&quot;&gt;R&amp;D&lt;/a&gt;'' ! 0 = CHR ''&''
   \<and> (\<exists>e \<in> set entities.
         take (length e) (drop 0 ''&lt;a id=&quot;x&quot;&gt;R&amp;D&lt;/a&gt;'') = e)
   \<and> CHR ''<'' \<notin> set ''&lt;a id=&quot;x&quot;&gt;R&amp;D&lt;/a&gt;''
   \<and> CHR 0x22 \<notin> set ''&lt;a id=&quot;x&quot;&gt;R&amp;D&lt;/a&gt;''\<close>
proof -
  let ?P = "sample_platform \<lparr>status = 200, body_text = []\<rparr>"
  let ?s = \<open>JStr ''<a id="x">R&D</a>''\<close>
  let ?out = \<open>''&lt;a id=&quot;x&quot;&gt;R&amp;D&lt;/a&gt;''\<close>
  have c: \<open>concat (map escape_char ''<a id="x">R&D</a>'') = ?out\<close>
    by (simp add: escape_char_def)
  from escapeHtml_safe [of ?P \<open>''<a id="x">R&D</a>''\<close> ?s]
  have e: "escapeHtml ?P ?s = Inr ?out"
    by (simp only: c)
  have l: "0 < length ?out" and a: "?out ! 0 = CHR ''&''"
    by simp_all
  from escapeHtml_safe [of ?P \<open>''<a id="x">R&D</a>''\<close> ?s] e l a
  have "\<exists>e \<in> set entities. take (length e) (drop 0 ?out) = e"
    and "CHR ''<'' \<notin> set ?out" and "CHR 0x22 \<notin> set ?out"
    by blast+
  with e l a show ?thesis by blast
qed

section \<open>Properties of the authentication record\<close>

text \<open>
  The body of \<^verbatim>\<open>getAuth\<close> by cases: the handler of its \<^verbatim>\<open>try\<close> turns every
  exception into \<^verbatim>\<open>null\<close>.
\<close>

lemma getAuth_cases:
  "getAuth P ls =
     Inr (case getItem ls AUTH_KEY of
            Inl e \<Rightarrow> JNull
          | Inr None \<Rightarrow> JNull
          | Inr (Some raw) \<Rightarrow>
              if raw = [] then JNull
              else case JSON_parse P raw of Inl e \<Rightarrow> JNull | Inr v \<Rightarrow> v)"
  by (simp add: getAuth_def try_catch_def split: sum.splits option.splits)

lemma getItem_setItem:
  "setItem ls k v = Inr ls' \<Longrightarrow> getItem ls' k = Inr (Some v)"
  by (cases ls) auto

lemma getItem_removeItem:
  "removeItem ls k = Inr ls' \<Longrightarrow> getItem ls' k = Inr None"
  by (cases ls) auto

text \<open>
  C4. For every authentication object that JSON represents, which is to say that
  \<^verbatim>\<open>JSON.stringify\<close> gives a non-empty text for it and \<^verbatim>\<open>JSON.parse\<close> reads that
  text back as the object, \<^verbatim>\<open>getAuth\<close> after \<^verbatim>\<open>setAuth\<close> returns the object; and
  \<^verbatim>\<open>getAuth\<close> after \<^verbatim>\<open>clearAuth\<close> returns \<^verbatim>\<open>null\<close>.
\<close>

theorem auth_roundtrip:
  "(\<forall>s ls'. JSON_stringify P auth = Inr (Some s) \<and> s \<noteq> [] \<and> JSON_parse P s = Inr auth \<and>
            setAuth P ls auth = Inr ls' \<longrightarrow>
            getAuth P ls' = Inr auth) \<and>
   (\<forall>ls'. clearAuth ls = Inr ls' \<longrightarrow> getAuth P ls' = Inr JNull)"
proof -
  have "getAuth P ls' = Inr auth"
    if "JSON_stringify P auth = Inr (Some s)" and "s \<noteq> []" and "JSON_parse P s = Inr auth"
      and "setAuth P ls auth = Inr ls'" for s ls'
  proof -
    from that(1,4) have "getItem ls' AUTH_KEY = Inr (Some s)"
      by (cases ls) (auto simp: setAuth_def)
    with that(2,3) show ?thesis
      by (simp add: getAuth_cases)
  qed
  moreover have "getAuth P ls' = Inr JNull" if "clearAuth ls = Inr ls'" for ls'
  proof -
    from that have "getItem ls' AUTH_KEY = Inr None"
      by (simp add: clearAuth_def getItem_removeItem)
    then show ?thesis
      by (simp add: getAuth_cases)
  qed
  ultimately show ?thesis by blast
qed

text \<open>An example: an administrator's record stored in an empty storage, then cleared.\<close>

theorem auth_roundtrip_witness:
  \<open>JSON_stringify (sample_platform \<lparr>status = 200, body_text = []\<rparr>)
       (JObj [(''role'', JStr ''admin'')]) = Inr (Some ''{"role":"admin"}'')
   \<and> ''{"role":"admin"}'' \<noteq> []
   \<and> JSON_parse (sample_platform \<lparr>status = 200, body_text = []\<rparr>) ''{"role":"admin"}''
       = Inr (JObj [(''role'', JStr ''admin'')])
   \<and> setAuth (sample_platform \<lparr>status = 200, body_text = []\<rparr>) (Store Map.empty)
        (JObj [(''role'', JStr ''admin'')])
       = Inr (Store [AUTH_KEY \<mapsto> ''{"role":"admin"}''])
   \<and> getAuth (sample_platform \<lparr>status = 200, body_text = []\<rparr>)
        (Store [AUTH_KEY \<mapsto> ''{"role":"admin"}''])
       = Inr (JObj [(''role'', JStr ''admin'')])
   \<and> clearAuth (Store [AUTH_KEY \<mapsto> ''{"role":"admin"}'']) = Inr (Store Map.empty)
   \<and> getAuth (sample_platform \<lparr>status = 200, body_text = []\<rparr>) (Store Map.empty)
       = Inr JNull\<close>
proof -
  let ?P = "sample_platform \<lparr>status = 200, body_text = []\<rparr>"
  let ?a = "JObj [(''role'', JStr ''admin'')]"
  let ?s = \<open>''{"role":"admin"}''\<close>
  have j: "JSON_stringify ?P ?a = Inr (Some ?s)" "?s \<noteq> []" "JSON_parse ?P ?s = Inr ?a"
    by (simp_all add: sample_platform_def)
  have u: "setAuth ?P (Store Map.empty) ?a = Inr (Store [AUTH_KEY \<mapsto> ?s])"
    by (simp add: setAuth_def sample_platform_def)
  have c: "clearAuth (Store [AUTH_KEY \<mapsto> ?s]) = Inr (Store Map.empty)"
    by (simp add: clearAuth_def)
  from auth_roundtrip [of ?P ?a "Store Map.empty"] j u
  have g: "getAuth ?P (Store [AUTH_KEY \<mapsto> ?s]) = Inr ?a"
    by blast
  from auth_roundtrip [of ?P ?a "Store [AUTH_KEY \<mapsto> ?s]"] c
  have n: "getAuth ?P (Store Map.empty) = Inr JNull"
    by blast
  from j u c g n show ?thesis by simp
qed

text \<open>
  C8. \<^verbatim>\<open>getAuth\<close> never throws. For every state of local storage it returns
  \<^verbatim>\<open>null\<close> or the value parsed from the text stored under the key: \<^verbatim>\<open>null\<close> when
  the key is absent, \<^verbatim>\<open>null\<close> when the stored text is not valid JSON, and the parsed
  value when the stored text is valid JSON.
\<close>

theorem getAuth_never_throws:
  "(\<exists>v. getAuth P ls = Inr v) \<and>
   (getAuth P ls = Inr JNull \<or>
    (\<exists>raw v. getItem ls AUTH_KEY = Inr (Some raw) \<and> JSON_parse P raw = Inr v \<and>
             getAuth P ls = Inr v)) \<and>
   (getItem ls AUTH_KEY = Inr None \<longrightarrow> getAuth P ls = Inr JNull) \<and>
   (\<forall>raw. getItem ls AUTH_KEY = Inr (Some raw) \<and> isl (JSON_parse P raw) \<longrightarrow>
          getAuth P ls = Inr JNull) \<and>
   (\<forall>raw v. getItem ls AUTH_KEY = Inr (Some raw) \<and> raw \<noteq> [] \<and> JSON_parse P raw = Inr v \<longrightarrow>
            getAuth P ls = Inr v)"
  by (auto simp: getAuth_cases isl_def split: sum.splits option.splits)

text \<open>
  Examples: a stored text that is not JSON, no stored text, a stored record, and a browser
  that denies access to the storage.
\<close>

theorem getAuth_never_throws_witness:
  \<open>getItem (Store [AUTH_KEY \<mapsto> ''<html>'']) AUTH_KEY = Inr (Some ''<html>'')
   \<and> isl (JSON_parse (sample_platform \<lparr>status = 200, body_text = []\<rparr>) ''<html>'')
   \<and> getAuth (sample_platform \<lparr>status = 200, body_text = []\<rparr>)
        (Store [AUTH_KEY \<mapsto> ''<html>'']) = Inr JNull
   \<and> getItem (Store Map.empty) AUTH_KEY = Inr None
   \<and> getAuth (sample_platform \<lparr>status = 200, body_text = []\<rparr>) (Store Map.empty) = Inr JNull
   \<and> getItem (Store [AUTH_KEY \<mapsto> ''{"role":"admin"}'']) AUTH_KEY
       = Inr (Some ''{"role":"admin"}'')
   \<and> JSON_parse (sample_platform \<lparr>status = 200, body_text = []\<rparr>) ''{"role":"admin"}''
       = Inr (JObj [(''role'', JStr ''admin'')])
   \<and> getAuth (sample_platform \<lparr>status = 200, body_text = []\<rparr>)
        (Store [AUTH_KEY \<mapsto> ''{"role":"admin"}'']) = Inr (JObj [(''role'', JStr ''admin'')])
   \<and> (\<exists>v. getAuth (sample_platform \<lparr>status = 200, body_text = []\<rparr>) Denied = Inr v)\<close>
proof -
  let ?P = "sample_platform \<lparr>status = 200, body_text = []\<rparr>"
  let ?s = \<open>''{"role":"admin"}''\<close>
  have i: "getItem (Store [AUTH_KEY \<mapsto> ''<html>'']) AUTH_KEY = Inr (Some ''<html>'')"
    "getItem (Store Map.empty) AUTH_KEY = Inr None"
    "getItem (Store [AUTH_KEY \<mapsto> ?s]) AUTH_KEY = Inr (Some ?s)"
    by simp_all
  have p: "isl (JSON_parse ?P ''<html>'')"
    "JSON_parse ?P ?s = Inr (JObj [(''role'', JStr ''admin'')])" "?s \<noteq> []"
    by (simp_all add: sample_platform_def)
  from getAuth_never_throws [of ?P "Store [AUTH_KEY \<mapsto> ''<html>'']"] i(1) p(1)
  have a: "getAuth ?P (Store [AUTH_KEY \<mapsto> ''<html>'']) = Inr JNull"
    by blast
  from getAuth_never_throws [of ?P "Store Map.empty"] i(2)
  have b: "getAuth ?P (Store Map.empty) = Inr JNull"
    by blast
  from getAuth_never_throws [of ?P "Store [AUTH_KEY \<mapsto> ?s]"] i(3) p(2,3)
  have c: "getAuth ?P (Store [AUTH_KEY \<mapsto> ?s]) = Inr (JObj [(''role'', JStr ''admin'')])"
    by blast
  from getAuth_never_throws [of ?P Denied]
  have d: "\<exists>v. getAuth ?P Denied = Inr v"
    by blast
  from i p a b c d show ?thesis by simp
qed

text \<open>
  C10. \<^verbatim>\<open>isTeacher(auth)\<close> does not throw, and what it returns is truthy if and only
  if \<open>auth\<close> is truthy and \<^verbatim>\<open>auth.role\<close> is the string \<^verbatim>\<open>teacher\<close> or the string
  \<^verbatim>\<open>admin\<close>; a record whose role is \<^verbatim>\<open>admin\<close> counts as a teacher.
\<close>

theorem isTeacher_truthy:
  "(\<exists>v. isTeacher auth = Inr v \<and>
        (truthy v \<longleftrightarrow>
           truthy auth \<and>
           (get_prop auth ''role'' = Inr (JStr ''teacher'') \<or>
            get_prop auth ''role'' = Inr (JStr ''admin'')))) \<and>
   (\<forall>kvs. map_of kvs ''role'' = Some (JStr ''admin'') \<longrightarrow>
          isTeacher (JObj kvs) = Inr (JBool True))"
  by (cases auth) (auto simp: isTeacher_def js_and_def)

text \<open>Examples: an administrator, a student, and no record.\<close>

theorem isTeacher_truthy_witness:
  "map_of [(''username'', JStr ''root''), (''role'', JStr ''admin'')] ''role''
     = Some (JStr ''admin'')
   \<and> isTeacher (JObj [(''username'', JStr ''root''), (''role'', JStr ''admin'')])
       = Inr (JBool True)
   \<and> isTeacher (JObj [(''role'', JStr ''student'')]) = Inr (JBool False)
   \<and> isTeacher JNull = Inr JNull"
proof -
  have m: "map_of [(''username'', JStr ''root''), (''role'', JStr ''admin'')] ''role''
             = Some (JStr ''admin'')"
    by simp
  from isTeacher_truthy [of "JObj [(''username'', JStr ''root''), (''role'', JStr ''admin'')]"] m
  have "isTeacher (JObj [(''username'', JStr ''root''), (''role'', JStr ''admin'')])
          = Inr (JBool True)"
    by blast
  moreover have "isTeacher (JObj [(''role'', JStr ''student'')]) = Inr (JBool False)"
    and "isTeacher JNull = Inr JNull"
    by (simp_all add: isTeacher_def js_and_def)
  ultimately show ?thesis using m by simp
qed

end
